theory Spec2Isabelle
  imports Main
begin

section \<open>Values, errors and outputs\<close>

text \<open>
  The exceptions that the modelled code can raise. \<open>ValueError\<close> carries its message:
  \<open>_validate_input\<close> raises it with a literal text, numpy and scipy raise it for
  arrays that do not fit together. \<open>IndexError\<close> is what \<open>results[0]\<close> raises on an
  empty list, \<open>ZeroDivisionError\<close> what \<open>len(X) // self.n_jobs\<close> raises for a zero
  divisor.
\<close>

datatype error =
    ValueError string
  | IndexError string
  | ZeroDivisionError string

text \<open>
  The entries of an input list are Python objects. The code asks two questions of an
  entry, \<open>isinstance(molecule, Mol)\<close> and \<open>type(molecule) == str\<close>, so an object is
  one of: a string whose type is exactly \<open>str\<close>; a string whose type is a strict
  subclass of \<open>str\<close> (and not a \<open>Mol\<close>), such as the \<open>numpy.str_\<close> elements of a
  numpy array of strings; an instance of \<open>Mol\<close>; \<open>None\<close>; or an object of any other
  type. \<open>'m\<close> is the type of parsed molecules, owned by RDKit.
\<close>

datatype 'm pyobj =
    Str string
  | StrSub string
  | MolObj 'm
  | NoneObj
  | OtherObj

fun isinstance_Mol :: "'m pyobj \<Rightarrow> bool" where
  "isinstance_Mol (MolObj m) = True"
| "isinstance_Mol x = False"

fun type_is_str :: "'m pyobj \<Rightarrow> bool" where
  "type_is_str (Str s) = True"
| "type_is_str x = False"

text \<open>
  What a computation unit returns, \<open>Union[np.ndarray, sparse.csr_array]\<close>: a dense
  two-dimensional array or a sparse matrix in CSR format. The third form, a sparse matrix
  in COO format, is what \<open>sparse.vstack\<close> returns when not every block is in CSR
  format. All are given by their column count and their list of rows, so that an array
  with no rows still has a column count (shape \<open>(0, c)\<close>). For a sparse matrix the rows
  are its logical content; the constructor records the representation.
\<close>

datatype 'v output_matrix =
    Ndarray (ncols: nat) (rows: "'v list list")
  | Csr_array (ncols: nat) (rows: "'v list list")
  | Coo_array (ncols: nat) (rows: "'v list list")

text \<open>\<open>isinstance(r, sparse.csr_array)\<close>.\<close>

fun isinstance_csr_array :: "'v output_matrix \<Rightarrow> bool" where
  "isinstance_csr_array (Csr_array c rs) = True"
| "isinstance_csr_array (Ndarray c rs) = False"
| "isinstance_csr_array (Coo_array c rs) = False"

text \<open>\<open>issparse(r)\<close>: the object is a scipy sparse matrix, of whatever format.\<close>

fun issparse :: "'v output_matrix \<Rightarrow> bool" where
  "issparse (Ndarray c rs) = False"
| "issparse (Csr_array c rs) = True"
| "issparse (Coo_array c rs) = True"

text \<open>\<open>M[i]\<close>, row \<open>i\<close> of an output; out of range it raises.\<close>

definition get_row :: "'v output_matrix \<Rightarrow> nat \<Rightarrow> error + 'v list" where
  "get_row M i =
     (if i < length (rows M) then Inr (rows M ! i)
      else Inl (IndexError ''index out of bounds''))"

section \<open>Library functions\<close>

text \<open>
  \<open>np.concatenate(arrays)\<close> along axis 0, for arrays of two dimensions: it needs at
  least one array, every array must have the column count of the first, and the result
  holds the rows of all arrays in list order. It raises \<open>ValueError\<close> otherwise. A
  sparse matrix is not an array for numpy (it is read as a zero-dimensional object
  array), so a list holding one is refused as well. The message texts are shortened:
  numpy's own go on to name the arrays and sizes that do not fit.
\<close>

definition np_concatenate :: "'v output_matrix list \<Rightarrow> error + 'v output_matrix" where
  "np_concatenate arrays =
     (case arrays of
        [] \<Rightarrow> Inl (ValueError ''need at least one array to concatenate'')
      | a # _ \<Rightarrow>
          if list_ex issparse arrays
          then Inl (ValueError ''zero-dimensional arrays cannot be concatenated'')
          else if list_all (\<lambda>b. ncols b = ncols a) arrays
          then Inr (Ndarray (ncols a) (concat (map rows arrays)))
          else Inl (ValueError
            ''all the input array dimensions except for the concatenation axis must match exactly''))"

text \<open>
  \<open>sparse.vstack(blocks)\<close>: stacks the blocks row-wise in list order into one sparse
  matrix; every block must have the column count of the first, otherwise it raises
  \<open>ValueError\<close>. When every block is in CSR format the result is in CSR format. When
  some block is not (a dense block is converted by scipy), the result is in COO format:
  sparse in both cases. \<open>transform\<close> calls it only with a first block in CSR format;
  for a list without any sparse block the model raises.
\<close>

definition sparse_vstack :: "'v output_matrix list \<Rightarrow> error + 'v output_matrix" where
  "sparse_vstack blocks =
     (case blocks of
        [] \<Rightarrow> Inl (ValueError ''blocks must be 2-D'')
      | a # _ \<Rightarrow>
          if \<not> list_ex issparse blocks
          then Inl (ValueError ''blocks must be 2-D'')
          else if \<not> list_all (\<lambda>b. ncols b = ncols a) blocks
          then Inl (ValueError ''incompatible dimensions for axis 1'')
          else if list_all isinstance_csr_array blocks
          then Inr (Csr_array (ncols a) (concat (map rows blocks)))
          else Inr (Coo_array (ncols a) (concat (map rows blocks))))"

text \<open>
  \<open>range(0, stop, step)\<close> for a step of at least one: the multiples of \<open>step\<close> below
  \<open>stop\<close>. The only call passes \<open>batch_size\<close>, which is at least one.
\<close>

definition py_range :: "nat \<Rightarrow> nat \<Rightarrow> nat list" where
  "py_range stop step = map (\<lambda>k. k * step) [0 ..< (stop + step - 1) div step]"

text \<open>
  \<open>Parallel(n_jobs=...)(delayed(f)(x) for x in xs)\<close> of joblib: the list of the
  results of \<open>f\<close>, in the order of \<open>xs\<close> whatever the order of completion; an
  exception raised in a worker is raised again in the caller. The model runs the calls in
  list order and stops at the first one that fails; when several calls fail, joblib
  raises the failure that happens first in time, and no statement below depends on which
  one it is.
\<close>

fun Parallel :: "('a \<Rightarrow> error + 'b) \<Rightarrow> 'a list \<Rightarrow> error + 'b list" where
  "Parallel f [] = Inr []"
| "Parallel f (x # xs) =
     (case f x of
        Inl e \<Rightarrow> Inl e
      | Inr y \<Rightarrow> (case Parallel f xs of Inl e \<Rightarrow> Inl e | Inr ys \<Rightarrow> Inr (y # ys)))"

section \<open>FingerprintTransformer\<close>

text \<open>
  The state of a \<open>FingerprintTransformer\<close> that its methods read: \<open>n_jobs\<close>, set by
  the constructor to \<open>effective_n_jobs(n_jobs)\<close>, which joblib makes at least one.
  (\<open>fp_generator_kwargs\<close> is set to the empty dictionary and read by no method here.)
  \<open>AvalonFingerprint\<close> is a subclass and adds its own parameters.
\<close>

record fingerprint_transformer =
  n_jobs :: int

record avalon_fingerprint = fingerprint_transformer +
  fp_size :: nat
  count :: bool
  sparse :: bool

text \<open>\<open>fit\<close> returns \<open>self\<close>; it reads neither \<open>X\<close> nor \<open>y\<close> and assigns nothing.\<close>

definition fit :: "'a fingerprint_transformer_scheme \<Rightarrow> 'x list \<Rightarrow> 'y option
    \<Rightarrow> 'a fingerprint_transformer_scheme" where
  "fit self X y = self"

text \<open>\<open>batch_size = max(len(X) // self.n_jobs, 1)\<close>, with Python's floor division.\<close>

definition batch_size :: "'a fingerprint_transformer_scheme \<Rightarrow> 'x list \<Rightarrow> int" where
  "batch_size self X = max (int (length X) div n_jobs self) 1"

text \<open>
  The chunks, \<open>args = (X[i : i + batch_size] for i in range(0, len(X), batch_size))\<close>.
  The slice \<open>X[i : i + b]\<close> of a list is \<open>take b (drop i X)\<close>: it stops at the end
  of the list without raising.
\<close>

definition args :: "'a fingerprint_transformer_scheme \<Rightarrow> 'x list \<Rightarrow> 'x list list" where
  "args self X =
     (let b = nat (batch_size self X)
      in map (\<lambda>i. take b (drop i X)) (py_range (length X) b))"

text \<open>
  The last four lines of \<open>transform\<close>: \<open>results[0]\<close> is read first (and raises on
  an empty list); if it is a \<open>csr_array\<close> the results are stacked by
  \<open>sparse.vstack\<close>, otherwise they are joined by \<open>np.concatenate\<close>.
\<close>

definition aggregate_results :: "'v output_matrix list \<Rightarrow> error + 'v output_matrix" where
  "aggregate_results results =
     (case results of
        [] \<Rightarrow> Inl (IndexError ''list index out of range'')
      | r0 # _ \<Rightarrow>
          if isinstance_csr_array r0 then sparse_vstack results
          else np_concatenate results)"

text \<open>
  \<open>transform\<close>. The abstract method \<open>_calculate_fingerprint\<close> is the parameter
  \<open>calculate_fingerprint\<close>: each subclass supplies its own. With \<open>n_jobs == 1\<close> it
  is called once on the whole input; otherwise the input is cut into chunks, each chunk
  is computed by a worker, and the results are aggregated.
\<close>

definition transform :: "'a fingerprint_transformer_scheme
    \<Rightarrow> ('x list \<Rightarrow> error + 'v output_matrix) \<Rightarrow> 'x list \<Rightarrow> error + 'v output_matrix" where
  "transform self calculate_fingerprint X =
     (if n_jobs self = 1 then calculate_fingerprint X
      else if n_jobs self = 0
      then Inl (ZeroDivisionError ''integer division or modulo by zero'')
      else (case Parallel calculate_fingerprint (args self X) of
              Inl e \<Rightarrow> Inl e
            | Inr results \<Rightarrow> aggregate_results results))"

text \<open>\<open>fit_transform\<close> returns \<open>self.transform(X)\<close>.\<close>

definition fit_transform :: "'a fingerprint_transformer_scheme
    \<Rightarrow> ('x list \<Rightarrow> error + 'v output_matrix) \<Rightarrow> 'x list \<Rightarrow> 'y option \<Rightarrow> error + 'v output_matrix" where
  "fit_transform self calculate_fingerprint X y = transform self calculate_fingerprint X"

text \<open>
  \<open>_validate_input\<close>. RDKit's \<open>MolFromSmiles\<close> is a parameter: it returns a molecule,
  or \<open>None\<close> for a string it cannot parse. The check raises unless every entry is a
  \<open>Mol\<close> or has exactly the type \<open>str\<close>; then each entry of type \<open>str\<close> is replaced
  by what \<open>MolFromSmiles\<close> returns for it and every other entry is kept.
\<close>

definition validate_input :: "(string \<Rightarrow> 'm option) \<Rightarrow> 'm pyobj list
    \<Rightarrow> error + 'm pyobj list" where
  "validate_input MolFromSmiles X =
     (if \<not> list_all (\<lambda>molecule. isinstance_Mol molecule \<or> type_is_str molecule) X
      then Inl (ValueError ''Passed value is neither rdkit.Chem.rdChem.Mol nor SMILES'')
      else Inr (map (\<lambda>x. case x of
                     Str s \<Rightarrow> (case MolFromSmiles s of None \<Rightarrow> NoneObj | Some m \<Rightarrow> MolObj m)
                   | _ \<Rightarrow> x) X))"

text \<open>
  A list of rows of \<open>c\<close> columns as an output in the configured representation, the way
  the last line of a computation unit builds it
  (\<open>csr_array(X) if self.sparse else np.array(X)\<close>). It states what a computation
  unit returns when it computes one row per entry.
\<close>

definition as_matrix :: "bool \<Rightarrow> nat \<Rightarrow> 'v list list \<Rightarrow> 'v output_matrix" where
  "as_matrix sp c rs = (if sp then Csr_array c rs else Ndarray c rs)"

section \<open>Stand-ins for the external functions\<close>

text \<open>
  Concrete instances of the parameters, used where a statement is evaluated on an
  explicit input: a parser that knows two SMILES strings, computation units that
  compute a two-column row for each entry, and a computation unit over Python objects
  that accepts molecules only and raises an error of its own for anything else.
\<close>

definition parse_two :: "string \<Rightarrow> nat option" where
  "parse_two s = (if s = ''CC'' then Some 1 else if s = ''O'' then Some 2 else None)"

definition row_of :: "nat \<Rightarrow> nat list" where
  "row_of x = [x, x + 1]"

definition unit_dense :: "nat list \<Rightarrow> error + nat output_matrix" where
  "unit_dense xs = Inr (Ndarray 2 (map row_of xs))"

definition unit_csr :: "nat list \<Rightarrow> error + nat output_matrix" where
  "unit_csr xs = Inr (Csr_array 2 (map row_of xs))"

definition unit_objects :: "nat pyobj list \<Rightarrow> error + nat output_matrix" where
  "unit_objects xs =
     (if list_all isinstance_Mol xs then Inr (Ndarray 1 (map (\<lambda>x. [0]) xs))
      else Inl (ValueError ''raised by the computation unit''))"

section \<open>The chunks of an input\<close>

lemma concat_slices:
  "concat (map (\<lambda>k. take b (drop (k * b) X)) [0 ..< m]) = take (m * b) X"
proof (induction m)
  case 0
  show ?case by simp
next
  case (Suc m)
  have "take (Suc m * b) X = take (m * b + b) X" by (simp add: add.commute)
  also have "\<dots> = take (m * b) X @ take b (drop (m * b) X)" by (rule take_add)
  finally show ?case using Suc by simp
qed

lemma ceil_div_covers: "0 < b \<Longrightarrow> n \<le> ((n + b - 1) div b) * (b::nat)"
proof -
  assume b: "0 < b"
  have "n + b - 1 < ((n + b - 1) div b) * b + b"
    using b by (metis div_mult_mod_eq mod_less_divisor add_less_cancel_left)
  then show ?thesis using b by linarith
qed

lemma below_ceil_div: "0 < b \<Longrightarrow> k < (n + b - 1) div b \<Longrightarrow> k * b < (n::nat)"
proof -
  assume b: "0 < b" and k: "k < (n + b - 1) div b"
  from k have "Suc k \<le> (n + b - 1) div b" by simp
  then have "Suc k * b \<le> n + b - 1" using b by (simp add: less_eq_div_iff_mult_less_eq)
  then show ?thesis using b by simp
qed

lemma batch_size_pos: "0 < nat (batch_size self X)"
  by (simp add: batch_size_def)

lemma args_slices:
  "args self X = map (\<lambda>k. take (nat (batch_size self X)) (drop (k * nat (batch_size self X)) X))
                   [0 ..< (length X + nat (batch_size self X) - 1) div nat (batch_size self X)]"
  by (simp add: args_def py_range_def Let_def comp_def)

lemma length_args:
  "length (args self X) = (length X + nat (batch_size self X) - 1) div nat (batch_size self X)"
  by (simp add: args_slices)

lemma args_nth:
  "k < length (args self X) \<Longrightarrow>
   args self X ! k = take (nat (batch_size self X)) (drop (k * nat (batch_size self X)) X)"
  by (simp add: args_slices)

lemma concat_args: "concat (args self X) = X"
proof -
  let ?b = "nat (batch_size self X)"
  have "concat (args self X) = take (((length X + ?b - 1) div ?b) * ?b) X"
    by (simp only: args_slices concat_slices)
  also have "\<dots> = X"
    using ceil_div_covers [OF batch_size_pos, of "length X" self X] by simp
  finally show ?thesis .
qed

lemma args_start_in_range:
  "k < length (args self X) \<Longrightarrow> k * nat (batch_size self X) < length X"
  using below_ceil_div [OF batch_size_pos] by (simp add: length_args)

lemma args_chunk_nonempty: "ch \<in> set (args self X) \<Longrightarrow> ch \<noteq> []"
proof -
  assume "ch \<in> set (args self X)"
  then obtain k where k: "k < length (args self X)" and ch: "ch = args self X ! k"
    by (auto simp: in_set_conv_nth)
  have "k * nat (batch_size self X) < length X" using k by (rule args_start_in_range)
  then show ?thesis using ch k batch_size_pos [of self X] by (simp add: args_nth)
qed

lemma args_nonempty: "X \<noteq> [] \<Longrightarrow> args self X \<noteq> []"
  using concat_args [of self X] by auto

lemma args_empty: "args self [] = []"
  by (simp add: args_def py_range_def batch_size_def Let_def)

section \<open>Dispatch and aggregation\<close>

lemma Parallel_all_Inr:
  "(\<And>x. x \<in> set xs \<Longrightarrow> f x = Inr (g x)) \<Longrightarrow> Parallel f xs = Inr (map g xs)"
  by (induction xs) simp_all

lemma Parallel_Inr_ex:
  "\<forall>x\<in>set xs. \<exists>y. f x = Inr y \<and> P y \<Longrightarrow>
   \<exists>ys. Parallel f xs = Inr ys \<and> length ys = length xs \<and> (\<forall>y\<in>set ys. P y)"
proof (induction xs)
  case Nil
  show ?case by simp
next
  case (Cons x xs)
  from Cons.prems obtain y where y: "f x = Inr y" "P y" by auto
  from Cons obtain ys where ys: "Parallel f xs = Inr ys" "length ys = length xs" "\<forall>y\<in>set ys. P y"
    by auto
  show ?case using y ys by simp
qed

lemma aggregate_uniform:
  "rs \<noteq> [] \<Longrightarrow> aggregate_results (map (as_matrix sp c) rs) = Inr (as_matrix sp c (concat rs))"
  by (cases rs)
     (simp_all add: aggregate_results_def as_matrix_def np_concatenate_def sparse_vstack_def
        list_all_iff list_ex_iff comp_def)

lemma aggregate_dense_ok:
  assumes "results \<noteq> []" and "\<forall>r\<in>set results. \<exists>rs. r = Ndarray c rs"
  shows "aggregate_results results = Inr (Ndarray c (concat (map rows results)))"
proof -
  from assms obtain r0 rest where res: "results = r0 # rest" by (cases results) auto
  from assms(2) res obtain rs0 where r0: "r0 = Ndarray c rs0" by auto
  have nosparse: "\<not> list_ex issparse results"
    using assms(2) by (auto simp: list_ex_iff)
  have cols: "list_all (\<lambda>b. ncols b = c) results"
    using assms(2) by (auto simp: list_all_iff)
  show ?thesis
    using nosparse cols by (simp add: res r0 aggregate_results_def np_concatenate_def)
qed

lemma aggregate_first_csr:
  assumes ne: "results \<noteq> []"
    and cols: "list_all (\<lambda>r. ncols r = c) results"
    and first: "isinstance_csr_array (hd results)"
  shows "aggregate_results results
       = Inr ((if list_all isinstance_csr_array results then Csr_array else Coo_array)
                c (concat (map rows results)))"
proof -
  from ne obtain r0 rest where res: "results = r0 # rest" by (cases results) auto
  have r0: "isinstance_csr_array r0" using first res by simp
  then have sp0: "issparse r0" by (cases r0) simp_all
  have c0: "ncols r0 = c" using cols res by simp
  have cols': "list_all (\<lambda>b. ncols b = ncols r0) results"
    using cols c0 by (simp add: list_all_iff)
  have "aggregate_results results = sparse_vstack results"
    using r0 by (simp add: res aggregate_results_def)
  also have "\<dots> = Inr ((if list_all isinstance_csr_array results then Csr_array else Coo_array)
                c (concat (map rows results)))"
    using cols' c0 sp0 unfolding res sparse_vstack_def by simp
  finally show ?thesis .
qed

lemma aggregate_first_not_csr:
  assumes ne: "results \<noteq> []"
    and cols: "list_all (\<lambda>r. ncols r = c) results"
    and first: "\<not> isinstance_csr_array (hd results)"
  shows "aggregate_results results
       = (if list_ex issparse results
          then Inl (ValueError ''zero-dimensional arrays cannot be concatenated'')
          else Inr (Ndarray c (concat (map rows results))))"
proof -
  from ne obtain r0 rest where res: "results = r0 # rest" by (cases results) auto
  have r0: "\<not> isinstance_csr_array r0" using first res by simp
  have c0: "ncols r0 = c" using cols res by simp
  have cols': "list_all (\<lambda>b. ncols b = ncols r0) results"
    using cols c0 by (simp add: list_all_iff)
  have "aggregate_results results = np_concatenate results"
    using r0 by (simp add: res aggregate_results_def)
  also have "\<dots> = (if list_ex issparse results
          then Inl (ValueError ''zero-dimensional arrays cannot be concatenated'')
          else Inr (Ndarray c (concat (map rows results))))"
    using cols' c0 unfolding res np_concatenate_def by simp
  finally show ?thesis .
qed

text \<open>
  With a computation unit that returns one row per entry, in a fixed representation and
  with a fixed column count, \<open>transform\<close> returns the rows of the whole input in input
  order, for every worker count.
\<close>

lemma transform_rowwise:
  assumes W: "1 \<le> n_jobs self"
    and unit: "\<forall>xs. xs \<noteq> [] \<longrightarrow> calculate_fingerprint xs = Inr (as_matrix sp c (map fp xs))"
    and X: "X \<noteq> []"
  shows "transform self calculate_fingerprint X = Inr (as_matrix sp c (map fp X))"
proof (cases "n_jobs self = 1")
  case True
  then show ?thesis using unit X by (simp add: transform_def)
next
  case False
  have par: "Parallel calculate_fingerprint (args self X)
      = Inr (map (\<lambda>ch. as_matrix sp c (map fp ch)) (args self X))"
    by (rule Parallel_all_Inr) (use unit args_chunk_nonempty in blast)
  have "aggregate_results (map (as_matrix sp c) (map (map fp) (args self X)))
      = Inr (as_matrix sp c (concat (map (map fp) (args self X))))"
    by (rule aggregate_uniform) (simp add: args_nonempty [OF X])
  moreover have "concat (map (map fp) (args self X)) = map fp X"
    by (simp add: map_concat [symmetric] concat_args)
  ultimately have "aggregate_results (map (\<lambda>ch. as_matrix sp c (map fp ch)) (args self X))
      = Inr (as_matrix sp c (map fp X))"
    by (simp add: comp_def)
  then show ?thesis using False W par by (simp add: transform_def)
qed

lemma get_row_as_matrix:
  "i < length rs \<Longrightarrow> get_row (as_matrix sp c rs) i = Inr (rs ! i)"
  by (simp add: get_row_def as_matrix_def)

lemma rows_as_matrix: "rows (as_matrix sp c rs) = rs"
  by (simp add: as_matrix_def)

section \<open>Order of the output rows\<close>

text \<open>
  C1: for every input and every worker count (at least one), with a computation unit
  that computes the fingerprint \<open>fp\<close> of each entry as one row, \<open>transform(X)\<close>
  returns the rows of the entries in input order: nothing is reordered, duplicated or
  dropped, row \<open>i\<close> is the fingerprint of entry \<open>i\<close>, and it is row \<open>0\<close> of the
  single-worker \<open>transform([X[i]])\<close>.
\<close>

theorem transform_row_is_fingerprint_of_entry:
  assumes W: "1 \<le> n_jobs self"
    and unit: "\<forall>xs. xs \<noteq> [] \<longrightarrow> calculate_fingerprint xs = Inr (as_matrix sp c (map fp xs))"
    and i: "i < length X"
  shows "\<exists>M M1. transform self calculate_fingerprint X = Inr M
      \<and> rows M = map fp X
      \<and> get_row M i = Inr (fp (X ! i))
      \<and> transform (self\<lparr>n_jobs := 1\<rparr>) calculate_fingerprint [X ! i] = Inr M1
      \<and> get_row M1 0 = get_row M i"
proof -
  from i have X: "X \<noteq> []" by auto
  have whole: "transform self calculate_fingerprint X = Inr (as_matrix sp c (map fp X))"
    using W unit X by (rule transform_rowwise)
  have single: "transform (self\<lparr>n_jobs := 1\<rparr>) calculate_fingerprint [X ! i]
      = Inr (as_matrix sp c [fp (X ! i)])"
    using unit by (simp add: transform_def)
  have row: "get_row (as_matrix sp c (map fp X)) i = Inr (fp (X ! i))"
    using i by (simp add: get_row_as_matrix)
  have row1: "get_row (as_matrix sp c [fp (X ! i)]) 0 = Inr (fp (X ! i))"
    by (simp add: get_row_as_matrix)
  show ?thesis
    using whole single row row1 by (simp add: rows_as_matrix)
qed

text \<open>Three entries, two workers (chunks of one entry), row 2.\<close>

theorem transform_row_is_fingerprint_of_entry_witness:
  "\<exists>M M1. transform \<lparr>n_jobs = 2\<rparr> unit_dense [5, 6, 7] = Inr M
      \<and> rows M = map row_of [5, 6, 7]
      \<and> get_row M 2 = Inr (row_of ([5, 6, 7] ! 2))
      \<and> transform (\<lparr>n_jobs = 2\<rparr>\<lparr>n_jobs := 1\<rparr>) unit_dense [[5, 6, 7] ! 2] = Inr M1
      \<and> get_row M1 0 = get_row M 2"
  using transform_row_is_fingerprint_of_entry
    [of "\<lparr>n_jobs = 2\<rparr>" unit_dense False 2 row_of 2 "[5, 6, 7]"]
  by (simp add: unit_dense_def as_matrix_def)

section \<open>Serial and parallel paths\<close>

text \<open>
  C2: for an input of at least four entries and a computation unit whose output is
  determined entry by entry (the row of a molecule depends on that molecule only, the
  column count is fixed), \<open>transform\<close> with \<open>n_jobs = 1\<close> and with \<open>n_jobs = 4\<close>
  return the same output, and they do return one.
\<close>

theorem serial_equals_four_workers:
  assumes unit: "\<forall>xs. xs \<noteq> [] \<longrightarrow> calculate_fingerprint xs = Inr (as_matrix sp c (map fp xs))"
    and len: "4 \<le> length X"
  shows "transform (self\<lparr>n_jobs := 1\<rparr>) calculate_fingerprint X
       = transform (self\<lparr>n_jobs := 4\<rparr>) calculate_fingerprint X
     \<and> (\<exists>M. transform (self\<lparr>n_jobs := 1\<rparr>) calculate_fingerprint X = Inr M)"
proof -
  from len have X: "X \<noteq> []" by auto
  have "transform (self\<lparr>n_jobs := 1\<rparr>) calculate_fingerprint X = Inr (as_matrix sp c (map fp X))"
    by (rule transform_rowwise [OF _ unit X]) simp
  moreover
  have "transform (self\<lparr>n_jobs := 4\<rparr>) calculate_fingerprint X = Inr (as_matrix sp c (map fp X))"
    by (rule transform_rowwise [OF _ unit X]) simp
  ultimately show ?thesis by simp
qed

text \<open>Five entries and a sparse computation unit.\<close>

theorem serial_equals_four_workers_witness:
  "4 \<le> length [1, 2, 3, 4, 5::nat]
   \<and> transform (\<lparr>n_jobs = 2\<rparr>\<lparr>n_jobs := 1\<rparr>) unit_csr [1, 2, 3, 4, 5]
       = transform (\<lparr>n_jobs = 2\<rparr>\<lparr>n_jobs := 4\<rparr>) unit_csr [1, 2, 3, 4, 5]
   \<and> (\<exists>M. transform (\<lparr>n_jobs = 2\<rparr>\<lparr>n_jobs := 1\<rparr>) unit_csr [1, 2, 3, 4, 5] = Inr M)"
proof -
  have unit: "\<forall>xs. xs \<noteq> [] \<longrightarrow> unit_csr xs = Inr (as_matrix True 2 (map row_of xs))"
    by (simp add: unit_csr_def as_matrix_def)
  have len: "4 \<le> length [1, 2, 3, 4, 5::nat]" by simp
  show ?thesis
    using len serial_equals_four_workers [OF unit len, of "\<lparr>n_jobs = 2\<rparr>"] by blast
qed

section \<open>The partition into chunks\<close>

text \<open>
  C3: for a worker count above one, \<open>batch_size\<close> is \<open>max(N // W, 1)\<close>; the chunks
  put end to end are the input (no gap, no overlap, order kept); chunk \<open>k\<close> is the slice
  of \<open>batch_size\<close> entries starting at \<open>k * batch_size\<close>, it is not empty and every
  chunk but the last has exactly \<open>batch_size\<close> entries; the number of chunks is the
  input length divided by \<open>batch_size\<close>, rounded up, and it is never checked against
  the worker count: whenever every chunk is computed to a dense array of the same column
  count, \<open>transform\<close> returns an output.
\<close>

theorem chunks_partition_input:
  assumes W: "1 < n_jobs self"
  shows "batch_size self X = max (int (length X) div n_jobs self) 1
    \<and> concat (args self X) = X
    \<and> length (args self X) = (length X + nat (batch_size self X) - 1) div nat (batch_size self X)
    \<and> (\<forall>k < length (args self X).
          args self X ! k = take (nat (batch_size self X)) (drop (k * nat (batch_size self X)) X)
        \<and> args self X ! k \<noteq> []
        \<and> length (args self X ! k) \<le> nat (batch_size self X))
    \<and> (\<forall>k. Suc k < length (args self X) \<longrightarrow> length (args self X ! k) = nat (batch_size self X))
    \<and> (X \<noteq> [] \<and> (\<forall>ch\<in>set (args self X). \<exists>rs. calculate_fingerprint ch = Inr (Ndarray c rs))
         \<longrightarrow> (\<exists>M. transform self calculate_fingerprint X = Inr M))"
proof -
  let ?b = "nat (batch_size self X)"
  have chunk: "\<forall>k < length (args self X).
          args self X ! k = take ?b (drop (k * ?b) X)
        \<and> args self X ! k \<noteq> []
        \<and> length (args self X ! k) \<le> ?b"
  proof (intro allI impI)
    fix k assume k: "k < length (args self X)"
    have "args self X ! k \<in> set (args self X)" using k by simp
    then have "args self X ! k \<noteq> []" by (rule args_chunk_nonempty)
    then show "args self X ! k = take ?b (drop (k * ?b) X)
        \<and> args self X ! k \<noteq> [] \<and> length (args self X ! k) \<le> ?b"
      using k by (simp add: args_nth)
  qed
  have full: "\<forall>k. Suc k < length (args self X) \<longrightarrow> length (args self X ! k) = ?b"
  proof (intro allI impI)
    fix k assume k: "Suc k < length (args self X)"
    then have "Suc k * ?b < length X" by (rule args_start_in_range)
    then have "k * ?b + ?b \<le> length X" by simp
    then show "length (args self X ! k) = ?b" using k by (simp add: args_nth)
  qed
  have accepted: "X \<noteq> [] \<and> (\<forall>ch\<in>set (args self X). \<exists>rs. calculate_fingerprint ch = Inr (Ndarray c rs))
         \<longrightarrow> (\<exists>M. transform self calculate_fingerprint X = Inr M)"
  proof
    assume a: "X \<noteq> [] \<and> (\<forall>ch\<in>set (args self X). \<exists>rs. calculate_fingerprint ch = Inr (Ndarray c rs))"
    then have "\<forall>ch\<in>set (args self X). \<exists>r. calculate_fingerprint ch = Inr r \<and> (\<exists>rs. r = Ndarray c rs)"
      by auto
    then obtain results where par: "Parallel calculate_fingerprint (args self X) = Inr results"
      and len: "length results = length (args self X)"
      and dense: "\<forall>r\<in>set results. \<exists>rs. r = Ndarray c rs"
      using Parallel_Inr_ex [of "args self X" calculate_fingerprint "\<lambda>r. \<exists>rs. r = Ndarray c rs"]
      by blast
    from a have "args self X \<noteq> []" by (simp add: args_nonempty)
    with len have "results \<noteq> []" by auto
    then have "aggregate_results results = Inr (Ndarray c (concat (map rows results)))"
      using dense by (rule aggregate_dense_ok)
    then show "\<exists>M. transform self calculate_fingerprint X = Inr M"
      using W par by (simp add: transform_def)
  qed
  have bs: "batch_size self X = max (int (length X) div n_jobs self) 1"
    by (simp add: batch_size_def)
  from bs concat_args length_args chunk full accepted show ?thesis
    by (intro conjI)
qed

text \<open>
  Five entries and two workers: \<open>batch_size\<close> is 2 and there are three chunks, one more
  than workers; \<open>transform\<close> returns an output.
\<close>

theorem chunks_partition_input_witness:
  "batch_size \<lparr>n_jobs = 2\<rparr> [1, 2, 3, 4, 5::nat] = 2
   \<and> args \<lparr>n_jobs = 2\<rparr> [1, 2, 3, 4, 5::nat] = [[1, 2], [3, 4], [5]]
   \<and> int (length (args \<lparr>n_jobs = 2\<rparr> [1, 2, 3, 4, 5::nat])) > n_jobs \<lparr>n_jobs = 2\<rparr>
   \<and> concat (args \<lparr>n_jobs = 2\<rparr> [1, 2, 3, 4, 5::nat]) = [1, 2, 3, 4, 5]
   \<and> (\<exists>M. transform \<lparr>n_jobs = 2\<rparr> unit_dense [1, 2, 3, 4, 5] = Inr M)"
proof -
  have W: "1 < n_jobs \<lparr>n_jobs = 2\<rparr>" by simp
  have b: "batch_size \<lparr>n_jobs = 2\<rparr> [1, 2, 3, 4, 5::nat] = 2"
    by (simp add: batch_size_def)
  have a: "args \<lparr>n_jobs = 2\<rparr> [1, 2, 3, 4, 5::nat] = [[1, 2], [3, 4], [5]]"
    by code_simp
  have u: "\<forall>ch\<in>set (args \<lparr>n_jobs = 2\<rparr> [1, 2, 3, 4, 5::nat]).
      \<exists>rs. unit_dense ch = Inr (Ndarray 2 rs)"
    by (simp add: unit_dense_def)
  show ?thesis
    using chunks_partition_input [OF W, of "[1, 2, 3, 4, 5]" unit_dense 2] u a b by simp
qed

section \<open>Validation\<close>

text \<open>
  C4, as the code has it: for an input whose entries are all molecules or of type
  \<open>str\<close>, a string that \<open>MolFromSmiles\<close> cannot parse raises nothing:
  \<open>_validate_input\<close> returns a list of the same length with \<open>None\<close> at the place
  of that entry. \<open>transform\<close> calls no validation: with one worker it hands the input as
  given to the computation unit, and with more it cuts the input as given into chunks.
\<close>

theorem unparsable_string_raises_nothing:
  assumes acc: "list_all (\<lambda>molecule. isinstance_Mol molecule \<or> type_is_str molecule) X"
    and i: "i < length X"
    and entry: "X ! i = Str s"
    and fails: "MolFromSmiles s = None"
  shows "(\<exists>Y. validate_input MolFromSmiles X = Inr Y \<and> length Y = length X \<and> Y ! i = NoneObj)
    \<and> transform (self\<lparr>n_jobs := 1\<rparr>) calculate_fingerprint X = calculate_fingerprint X
    \<and> concat (args self X) = X"
proof -
  have "validate_input MolFromSmiles X
      = Inr (map (\<lambda>x. case x of
                     Str s \<Rightarrow> (case MolFromSmiles s of None \<Rightarrow> NoneObj | Some m \<Rightarrow> MolObj m)
                   | _ \<Rightarrow> x) X)"
    using acc by (simp add: validate_input_def)
  then have "\<exists>Y. validate_input MolFromSmiles X = Inr Y \<and> length Y = length X \<and> Y ! i = NoneObj"
    using i entry fails by simp
  moreover have "transform (self\<lparr>n_jobs := 1\<rparr>) calculate_fingerprint X = calculate_fingerprint X"
    by (simp add: transform_def)
  ultimately show ?thesis by (simp add: concat_args)
qed

text \<open>A valid string followed by one that does not parse.\<close>

theorem unparsable_string_raises_nothing_witness:
  "(\<exists>Y. validate_input parse_two [Str ''CC'', Str ''not_a_valid_structure!!''] = Inr Y
        \<and> length Y = length [Str ''CC'', Str ''not_a_valid_structure!!'' :: nat pyobj]
        \<and> Y ! 1 = NoneObj)
   \<and> transform (\<lparr>n_jobs = 2\<rparr>\<lparr>n_jobs := 1\<rparr>) unit_objects
        [Str ''CC'', Str ''not_a_valid_structure!!'' :: nat pyobj]
       = unit_objects [Str ''CC'', Str ''not_a_valid_structure!!'']
   \<and> concat (args \<lparr>n_jobs = 2\<rparr> [Str ''CC'', Str ''not_a_valid_structure!!'' :: nat pyobj])
       = [Str ''CC'', Str ''not_a_valid_structure!!'']"
proof -
  let ?X = "[Str ''CC'', Str ''not_a_valid_structure!!'' :: nat pyobj]"
  have acc: "list_all (\<lambda>molecule. isinstance_Mol molecule \<or> type_is_str molecule) ?X" by simp
  have i: "1 < length ?X" by simp
  have entry: "?X ! 1 = Str ''not_a_valid_structure!!''" by simp
  have fails: "parse_two ''not_a_valid_structure!!'' = None" by (simp add: parse_two_def)
  show ?thesis
    using unparsable_string_raises_nothing
      [where MolFromSmiles = parse_two and s = "''not_a_valid_structure!!''" and X = ?X
         and i = 1 and self = "\<lparr>n_jobs = 2\<rparr>" and calculate_fingerprint = unit_objects,
       OF acc i entry fails]
    by simp
qed

text \<open>
  The input \<open>["not_a_valid_structure!!"]\<close>: \<open>_validate_input\<close> returns \<open>[None]\<close>
  and raises nothing; with two workers \<open>transform\<close> puts the string into a chunk and
  dispatches it, and the error it ends with is the one the computation unit raised for
  that chunk.
\<close>

theorem invalid_string_counterexample:
  "validate_input parse_two [Str ''not_a_valid_structure!!''] = Inr [NoneObj]
   \<and> args \<lparr>n_jobs = 2\<rparr> [Str ''not_a_valid_structure!!'' :: nat pyobj]
       = [[Str ''not_a_valid_structure!!'']]
   \<and> transform \<lparr>n_jobs = 2\<rparr> unit_objects [Str ''not_a_valid_structure!!'']
       = Inl (ValueError ''raised by the computation unit'')"
proof -
  have v: "validate_input parse_two [Str ''not_a_valid_structure!!''] = Inr [NoneObj]"
    by (simp add: validate_input_def parse_two_def)
  have a: "args \<lparr>n_jobs = 2\<rparr> [Str ''not_a_valid_structure!!'' :: nat pyobj]
       = [[Str ''not_a_valid_structure!!'']]"
    by code_simp
  have t: "transform \<lparr>n_jobs = 2\<rparr> unit_objects [Str ''not_a_valid_structure!!'']
       = Inl (ValueError ''raised by the computation unit'')"
    by (simp add: transform_def a unit_objects_def)
  from v a t show ?thesis by (intro conjI)
qed

text \<open>
  C5, as the code has it: for every list whose entries are each a molecule or a string
  of exactly the type \<open>str\<close> that \<open>MolFromSmiles\<close> parses, \<open>_validate_input\<close>
  returns a list of the same length, whose entry \<open>i\<close> is the molecule at place \<open>i\<close>
  of the input or the molecule parsed from the string there, and every returned entry is
  a molecule (none is \<open>None\<close>).
\<close>

theorem validate_input_same_length_order_valid:
  assumes ok: "\<forall>e\<in>set X. (\<exists>m. e = MolObj m) \<or> (\<exists>s m. e = Str s \<and> MolFromSmiles s = Some m)"
  shows "\<exists>Y. validate_input MolFromSmiles X = Inr Y
      \<and> length Y = length X
      \<and> (\<forall>i < length X. (\<exists>m. X ! i = MolObj m \<and> Y ! i = MolObj m)
                       \<or> (\<exists>s m. X ! i = Str s \<and> MolFromSmiles s = Some m \<and> Y ! i = MolObj m))
      \<and> list_all isinstance_Mol Y"
proof -
  let ?conv = "\<lambda>x. case x of
                     Str s \<Rightarrow> (case MolFromSmiles s of None \<Rightarrow> NoneObj | Some m \<Rightarrow> MolObj m)
                   | _ \<Rightarrow> x"
  have acc: "list_all (\<lambda>molecule. isinstance_Mol molecule \<or> type_is_str molecule) X"
    using ok by (auto simp: list_all_iff)
  then have val: "validate_input MolFromSmiles X = Inr (map ?conv X)"
    by (simp add: validate_input_def)
  have elem: "(\<exists>m. e = MolObj m \<and> ?conv e = MolObj m)
      \<or> (\<exists>s m. e = Str s \<and> MolFromSmiles s = Some m \<and> ?conv e = MolObj m)"
    if "e \<in> set X" for e
    using ok that by fastforce
  have pos: "\<forall>i < length X. (\<exists>m. X ! i = MolObj m \<and> map ?conv X ! i = MolObj m)
                       \<or> (\<exists>s m. X ! i = Str s \<and> MolFromSmiles s = Some m \<and> map ?conv X ! i = MolObj m)"
    using elem by simp
  have valid: "list_all isinstance_Mol (map ?conv X)"
    unfolding list_all_iff using elem by fastforce
  show ?thesis using val pos valid by simp
qed

text \<open>Two strings that parse around a molecule.\<close>

theorem validate_input_same_length_order_valid_witness:
  "\<exists>Y. validate_input parse_two [Str ''CC'', MolObj 7, Str ''O''] = Inr Y
      \<and> length Y = length [Str ''CC'', MolObj 7, Str ''O'' :: nat pyobj]
      \<and> Y = [MolObj 1, MolObj 7, MolObj 2]
      \<and> list_all isinstance_Mol Y"
proof -
  have ok: "\<forall>e\<in>set [Str ''CC'', MolObj 7, Str ''O''].
      (\<exists>m. e = MolObj m) \<or> (\<exists>s m. e = Str s \<and> parse_two s = Some m)"
    by (simp add: parse_two_def)
  have "validate_input parse_two [Str ''CC'', MolObj 7, Str ''O'']
      = Inr [MolObj 1, MolObj 7, MolObj 2]"
    by (simp add: validate_input_def parse_two_def)
  with validate_input_same_length_order_valid [OF ok] show ?thesis by auto
qed

text \<open>
  A one-entry list holding the SMILES string \<open>CC\<close> as an instance of a subclass of
  \<open>str\<close> (what iterating over a numpy array of strings yields): no list is returned,
  the type check raises.
\<close>

theorem str_subclass_counterexample:
  "validate_input parse_two [StrSub ''CC'']
     = Inl (ValueError ''Passed value is neither rdkit.Chem.rdChem.Mol nor SMILES'')"
  by (simp add: validate_input_def)

text \<open>
  C10: an entry whose type is a strict subclass of \<open>str\<close> (and which is not a
  molecule) makes \<open>_validate_input\<close> raise the type-mismatch \<open>ValueError\<close>, whatever
  the other entries are: the check compares the type with \<open>str\<close> for equality.
\<close>

theorem str_subclass_entry_rejected:
  assumes "StrSub s \<in> set X"
  shows "validate_input MolFromSmiles X
       = Inl (ValueError ''Passed value is neither rdkit.Chem.rdChem.Mol nor SMILES'')"
proof -
  have "\<not> (isinstance_Mol (StrSub s :: 'a pyobj) \<or> type_is_str (StrSub s :: 'a pyobj))" by simp
  with assms have "\<not> list_all (\<lambda>molecule. isinstance_Mol molecule \<or> type_is_str molecule) X"
    unfolding list_all_iff by blast
  then show ?thesis by (simp add: validate_input_def)
qed

theorem str_subclass_entry_rejected_witness:
  "StrSub ''CC'' \<in> set [Str ''O'', StrSub ''CC'', MolObj 3]
   \<and> validate_input parse_two [Str ''O'', StrSub ''CC'', MolObj 3]
       = Inl (ValueError ''Passed value is neither rdkit.Chem.rdChem.Mol nor SMILES'')"
  using str_subclass_entry_rejected [of "''CC''" "[Str ''O'', StrSub ''CC'', MolObj 3]" parse_two]
  by simp

section \<open>Empty input\<close>

text \<open>
  C6, what the code does on the empty input: with more than one worker there are no
  chunks, no results, and \<open>results[0]\<close> raises \<open>IndexError\<close>; with one worker the
  result is what the computation unit returns for the empty list.
\<close>

theorem empty_input_parallel_IndexError:
  assumes "1 < n_jobs self"
  shows "transform self calculate_fingerprint [] = Inl (IndexError ''list index out of range'')
     \<and> transform (self\<lparr>n_jobs := 1\<rparr>) calculate_fingerprint [] = calculate_fingerprint []"
  using assms by (simp add: transform_def args_empty aggregate_results_def)

theorem empty_input_parallel_IndexError_witness:
  "1 < n_jobs \<lparr>n_jobs = 2\<rparr>
   \<and> transform \<lparr>n_jobs = 2\<rparr> unit_dense [] = Inl (IndexError ''list index out of range'')
   \<and> transform (\<lparr>n_jobs = 2\<rparr>\<lparr>n_jobs := 1\<rparr>) unit_dense [] = unit_dense []"
  using empty_input_parallel_IndexError [of "\<lparr>n_jobs = 2\<rparr>" unit_dense] by simp

section \<open>Aggregation\<close>

text \<open>
  C7, as the code has it: the aggregation reads the type of the first result, not the
  \<open>sparse\<close> parameter. For a non-empty list of results of one column count: when the
  first result is a \<open>csr_array\<close> the results are stacked into a sparse matrix holding
  the rows of all results in list order, in CSR format when every result is a
  \<open>csr_array\<close> and in COO format otherwise, never a dense array; when the first
  result is not a \<open>csr_array\<close> the results are concatenated into a dense array if none
  of them is sparse and the call fails with \<open>ValueError\<close> if one is. With a
  computation unit that returns a \<open>csr_array\<close> exactly when \<open>sparse\<close> is set, the
  output of \<open>transform\<close> is sparse exactly when \<open>sparse\<close> is set.
\<close>

theorem aggregation_follows_first_result:
  assumes ne: "results \<noteq> []"
    and cols: "list_all (\<lambda>r. ncols r = c) results"
  shows "(isinstance_csr_array (hd results) \<and> list_all isinstance_csr_array results
           \<longrightarrow> aggregate_results results = Inr (Csr_array c (concat (map rows results))))
    \<and> (isinstance_csr_array (hd results) \<and> \<not> list_all isinstance_csr_array results
           \<longrightarrow> aggregate_results results = Inr (Coo_array c (concat (map rows results))))
    \<and> (\<not> isinstance_csr_array (hd results) \<and> \<not> list_ex issparse results
           \<longrightarrow> aggregate_results results = Inr (Ndarray c (concat (map rows results))))
    \<and> (\<not> isinstance_csr_array (hd results) \<and> list_ex issparse results
           \<longrightarrow> (\<exists>msg. aggregate_results results = Inl (ValueError msg)))
    \<and> (1 \<le> n_jobs self \<and> X \<noteq> []
       \<and> (\<forall>xs. xs \<noteq> [] \<longrightarrow> calculate_fingerprint xs = Inr (as_matrix (sparse self) c' (map fp xs)))
       \<longrightarrow> transform self calculate_fingerprint X = Inr (as_matrix (sparse self) c' (map fp X)))"
proof -
  have csr: "isinstance_csr_array (hd results) \<and> list_all isinstance_csr_array results
      \<longrightarrow> aggregate_results results = Inr (Csr_array c (concat (map rows results)))"
    using aggregate_first_csr [OF ne cols] by simp
  have coo: "isinstance_csr_array (hd results) \<and> \<not> list_all isinstance_csr_array results
      \<longrightarrow> aggregate_results results = Inr (Coo_array c (concat (map rows results)))"
    using aggregate_first_csr [OF ne cols] by simp
  have dense: "\<not> isinstance_csr_array (hd results) \<and> \<not> list_ex issparse results
      \<longrightarrow> aggregate_results results = Inr (Ndarray c (concat (map rows results)))"
    using aggregate_first_not_csr [OF ne cols] by simp
  have refused: "\<not> isinstance_csr_array (hd results) \<and> list_ex issparse results
      \<longrightarrow> (\<exists>msg. aggregate_results results = Inl (ValueError msg))"
    using aggregate_first_not_csr [OF ne cols] by simp
  have unit: "1 \<le> n_jobs self \<and> X \<noteq> []
       \<and> (\<forall>xs. xs \<noteq> [] \<longrightarrow> calculate_fingerprint xs = Inr (as_matrix (sparse self) c' (map fp xs)))
       \<longrightarrow> transform self calculate_fingerprint X = Inr (as_matrix (sparse self) c' (map fp X))"
    using transform_rowwise [of self calculate_fingerprint "sparse self" c' fp X] by blast
  from csr coo dense refused unit show ?thesis by (intro conjI)
qed

text \<open>
  Lists in which the kinds differ, so that which result is read shows: a \<open>csr_array\<close>
  first and a dense array second are stacked into a sparse matrix; the same two the
  other way round are refused by \<open>np.concatenate\<close>. Then a sparse transformer with a
  sparse computation unit.
\<close>

theorem aggregation_follows_first_result_witness:
  "aggregate_results [Csr_array 2 [[1, 2]], Ndarray 2 [[3, 4::nat], [5, 6]]]
       = Inr (Coo_array 2 [[1, 2], [3, 4], [5, 6]])
   \<and> (\<exists>msg. aggregate_results [Ndarray 2 [[3, 4::nat], [5, 6]], Csr_array 2 [[1, 2]]]
         = Inl (ValueError msg))
   \<and> aggregate_results [Csr_array 2 [[1, 2]], Csr_array 2 [[3, 4::nat], [5, 6]]]
       = Inr (Csr_array 2 [[1, 2], [3, 4], [5, 6]])
   \<and> transform \<lparr>n_jobs = 2, fp_size = 2, count = False, sparse = True\<rparr> unit_csr [1, 2, 3]
       = Inr (Csr_array 2 [[1, 2], [2, 3], [3, 4]])"
proof -
  let ?a = "[Csr_array 2 [[1, 2]], Ndarray 2 [[3, 4::nat], [5, 6]]]"
  let ?b = "[Ndarray 2 [[3, 4::nat], [5, 6]], Csr_array 2 [[1, 2]]]"
  let ?c = "[Csr_array 2 [[1, 2]], Csr_array 2 [[3, 4::nat], [5, 6]]]"
  let ?self = "\<lparr>n_jobs = 2, fp_size = 2, count = False, sparse = True\<rparr>"
  have unit: "\<forall>xs. xs \<noteq> [] \<longrightarrow> unit_csr xs = Inr (as_matrix (sparse ?self) 2 (map row_of xs))"
    by (simp add: unit_csr_def as_matrix_def)
  have first: "aggregate_results ?a = Inr (Coo_array 2 [[1, 2], [3, 4], [5, 6]])"
    using aggregation_follows_first_result
      [of ?a 2 ?self "[1, 2, 3]" unit_csr 2 row_of]
    by simp
  have second: "\<exists>msg. aggregate_results ?b = Inl (ValueError msg)"
    using aggregation_follows_first_result
      [of ?b 2 ?self "[1, 2, 3]" unit_csr 2 row_of]
    by simp
  have third: "aggregate_results ?c = Inr (Csr_array 2 [[1, 2], [3, 4], [5, 6]])"
    using aggregation_follows_first_result
      [of ?c 2 ?self "[1, 2, 3]" unit_csr 2 row_of]
    by simp
  have fourth: "transform ?self unit_csr [1, 2, 3] = Inr (Csr_array 2 [[1, 2], [2, 3], [3, 4]])"
    using unit aggregation_follows_first_result [of ?c 2 ?self "[1, 2, 3]" unit_csr 2 row_of]
    by (simp add: as_matrix_def row_of_def)
  from first second third fourth show ?thesis by (intro conjI)
qed

text \<open>
  A transformer with \<open>sparse = False\<close> whose computation unit returns sparse results:
  the results are stacked into a sparse matrix, so the choice was read from the results
  and not from the parameter.
\<close>

theorem aggregation_ignores_sparse_parameter_counterexample:
  "sparse \<lparr>n_jobs = 2, fp_size = 2, count = False, sparse = False\<rparr> = False
   \<and> transform \<lparr>n_jobs = 2, fp_size = 2, count = False, sparse = False\<rparr> unit_csr [1, 2]
       = Inr (Csr_array 2 [[1, 2], [2, 3]])"
  by code_simp

text \<open>
  C8, as the code has it: when the results (all dense or all sparse) do not all have the
  column count of the first, the aggregation fails with the \<open>ValueError\<close> that
  \<open>np.concatenate\<close> or \<open>sparse.vstack\<close> raises; the code makes no check of its own.
\<close>

theorem inconsistent_columns_raise_ValueError:
  assumes ne: "results \<noteq> []"
    and kind: "list_all (\<lambda>r. isinstance_csr_array r = isinstance_csr_array (hd results)) results"
    and cols: "\<not> list_all (\<lambda>r. ncols r = ncols (hd results)) results"
  shows "\<exists>msg. aggregate_results results = Inl (ValueError msg)"
proof -
  from ne obtain r0 rest where res: "results = r0 # rest" by (cases results) auto
  show ?thesis
  proof (cases "isinstance_csr_array r0")
    case True
    then have "issparse r0" by (cases r0) simp_all
    then show ?thesis
      using True cols by (simp add: res aggregate_results_def sparse_vstack_def)
  next
    case False
    then show ?thesis
      using cols by (simp add: res aggregate_results_def np_concatenate_def)
  qed
qed

theorem inconsistent_columns_raise_ValueError_witness:
  "\<exists>msg. aggregate_results [Csr_array 2 [[1, 2::nat]], Csr_array 3 [[1, 2, 3]]]
      = Inl (ValueError msg)"
  using inconsistent_columns_raise_ValueError
    [of "[Csr_array 2 [[1, 2::nat]], Csr_array 3 [[1, 2, 3]]]"]
  by simp

text \<open>
  Two dense results of two and of three columns: the error is numpy's \<open>ValueError\<close>.
\<close>

theorem inconsistent_columns_counterexample:
  "aggregate_results [Ndarray 2 [[1, 2::nat]], Ndarray 3 [[1, 2, 3]]]
     = Inl (ValueError
         ''all the input array dimensions except for the concatenation axis must match exactly'')"
  by (simp add: aggregate_results_def np_concatenate_def)

section \<open>The facade\<close>

text \<open>
  C9: \<open>fit(X, y)\<close> returns the transformer itself, unchanged, and
  \<open>fit_transform(X, y)\<close> returns what \<open>transform(X)\<close> returns.
\<close>

theorem fit_returns_self_and_fit_transform_is_transform:
  "fit self X y = self \<and>
   fit_transform self calculate_fingerprint X y' = transform self calculate_fingerprint X"
  by (simp add: fit_def fit_transform_def)

end
